theory Spec2Isabelle
  imports Main "HOL-Library.Word"
begin

section \<open>JavaScript values and strings\<close>

text \<open>
  The three characters that matter for SQL quoting, written by code point.
\<close>

abbreviation dquote :: char where "dquote \<equiv> CHR 0x22"
abbreviation squote :: char where "squote \<equiv> CHR 0x27"
abbreviation backslash :: char where "backslash \<equiv> CHR 0x5C"

text \<open>
  The errors of \<open>expressError.js\<close> that the modelled code raises, each with its message.
\<close>

datatype error =
    BadRequestError string
  | NotFoundError string
  | UnauthorizedError

text \<open>
  Decimal rendering of a non-negative integer, as JavaScript's number-to-string
  conversion gives for array indices and other small integers.
\<close>

definition digit_char :: "nat \<Rightarrow> char" where
  "digit_char d = ''0123456789'' ! d"

fun string_of_nat :: "nat \<Rightarrow> string" where
  "string_of_nat n =
     (if n < 10 then [digit_char n] else string_of_nat (n div 10) @ [digit_char (n mod 10)])"

declare string_of_nat.simps [simp del]



text \<open>\<open>Array.prototype.join\<close>: the elements separated by \<open>sep\<close>.\<close>

fun join :: "string \<Rightarrow> string list \<Rightarrow> string" where
  "join sep [] = []"
| "join sep [x] = x"
| "join sep (x # y # ys) = x @ sep @ join sep (y # ys)"

section \<open>helpers/sql.js: sqlForPartialUpdate\<close>

text \<open>
  \<open>dataToUpdate\<close> is a plain object. It is modelled by its own enumerable properties
  in the order in which \<open>Object.keys\<close> and \<open>Object.values\<close> enumerate them (both use
  the same order). \<open>jsToSql\<close> maps a model property to a column name; it is a plain
  object too, given by its own properties, whose values are strings. A lookup
  \<open>jsToSql[colName]\<close> of a name that is not an own property goes on to the object's
  prototype, \<open>Object.prototype\<close>.
\<close>

type_synonym 'v jsobject = "(string \<times> 'v) list"

definition object_keys :: "'v jsobject \<Rightarrow> string list" where
  "object_keys obj = map fst obj"

definition object_values :: "'v jsobject \<Rightarrow> 'v list" where
  "object_values obj = map snd obj"

record 'v partial_update =
  setCols :: string
  values_of :: "'v list"

text \<open>
  The properties that every plain object inherits from \<open>Object.prototype\<close> in Node.js,
  each with the text that a template literal gives for its value. All but one are built-in
  functions, which print as \<^verbatim>\<open>function name() { [native code] }\<close>;
  \<open>constructor\<close> is the function \<open>Object\<close>, and \<open>__proto__\<close> reads as the prototype
  object itself, which prints as \<^verbatim>\<open>[object Object]\<close>. Functions and objects are
  truthy.
\<close>

definition native_function :: "string \<Rightarrow> string" where
  "native_function f = ''function '' @ f @ ''() { [native code] }''"

definition object_prototype :: "(string \<times> string) list" where
  "object_prototype =
     [(''constructor'', native_function ''Object''),
      (''__defineGetter__'', native_function ''__defineGetter__''),
      (''__defineSetter__'', native_function ''__defineSetter__''),
      (''hasOwnProperty'', native_function ''hasOwnProperty''),
      (''__lookupGetter__'', native_function ''__lookupGetter__''),
      (''__lookupSetter__'', native_function ''__lookupSetter__''),
      (''isPrototypeOf'', native_function ''isPrototypeOf''),
      (''propertyIsEnumerable'', native_function ''propertyIsEnumerable''),
      (''toString'', native_function ''toString''),
      (''valueOf'', native_function ''valueOf''),
      (''__proto__'', ''[object Object]''),
      (''toLocaleString'', native_function ''toLocaleString'')]"

text \<open>
  \<open>jsToSql[colName] || colName\<close>. An own property is a string, truthy when it is not
  empty; without an own property the lookup gives the inherited value, which is truthy, or
  \<open>undefined\<close>. The result is the text that the template puts into the assignment: the
  value of the lookup when it is truthy, the property name otherwise.
\<close>

definition column_for :: "(string \<rightharpoonup> string) \<Rightarrow> string \<Rightarrow> string" where
  "column_for jsToSql colName =
     (case jsToSql colName of
        Some c \<Rightarrow> if c \<noteq> [] then c else colName
      | None \<Rightarrow>
          (case map_of object_prototype colName of
             Some inherited \<Rightarrow> inherited
           | None \<Rightarrow> colName))"

text \<open>
  The callback of \<open>keys.map\<close>: the template
  \<^verbatim>\<open>"${jsToSql[colName] || colName}"=$${idx + 1}\<close>.
\<close>

definition assignment :: "(string \<rightharpoonup> string) \<Rightarrow> nat \<times> string \<Rightarrow> string" where
  "assignment jsToSql p =
     [dquote] @ column_for jsToSql (snd p) @ [dquote] @ ''=$'' @ string_of_nat (fst p + 1)"

definition cols :: "'v jsobject \<Rightarrow> (string \<rightharpoonup> string) \<Rightarrow> string list" where
  "cols dataToUpdate jsToSql =
     map (assignment jsToSql) (enumerate 0 (object_keys dataToUpdate))"

definition sqlForPartialUpdate ::
  "'v jsobject \<Rightarrow> (string \<rightharpoonup> string) \<Rightarrow> error + 'v partial_update" where
  "sqlForPartialUpdate dataToUpdate jsToSql =
     (if length (object_keys dataToUpdate) = 0 then Inl (BadRequestError ''No data'')
      else Inr \<lparr> setCols = join '', '' (cols dataToUpdate jsToSql),
                 values_of = object_values dataToUpdate \<rparr>)"

text \<open>
  How PostgreSQL reads a quoted identifier: it opens with a double quote and closes at
  the first double quote that is not doubled; a doubled double quote stands for one
  double quote of the name. The result is the name and the text left after the closing
  quote; \<open>None\<close> when the text does not open with a double quote or never closes.
\<close>

fun read_ident_body :: "string \<Rightarrow> (string \<times> string) option" where
  "read_ident_body [] = None"
| "read_ident_body (c # cs) =
     (if c = dquote then
        (case cs of
           [] \<Rightarrow> Some ([], [])
         | d # ds \<Rightarrow>
             if d = dquote then map_option (\<lambda>(n, r). (dquote # n, r)) (read_ident_body ds)
             else Some ([], cs))
      else map_option (\<lambda>(n, r). (c # n, r)) (read_ident_body cs))"

definition read_quoted_ident :: "string \<Rightarrow> (string \<times> string) option" where
  "read_quoted_ident s =
     (case s of
        [] \<Rightarrow> None
      | c # cs \<Rightarrow> if c = dquote then read_ident_body cs else None)"

section \<open>Filter values\<close>

text \<open>
  A JavaScript number is a double. The code reads two things of a number: whether it is
  truthy, and its string conversion. The model has the numbers in three kinds:
  \<^item> \<open>Integer neg m\<close>, an integer of magnitude \<open>m\<close> below \<open>2^53\<close>, negative when \<open>neg\<close>
    is set; these are the doubles that are integers in the range where every integer is a
    double and prints as its decimal digits. Magnitude 0 with the sign set is the negative
    zero, which is falsy and prints as \<open>0\<close> like the positive one;
  \<^item> \<open>NaN\<close>, which is falsy and prints as \<open>NaN\<close>;
  \<^item> \<open>Other text\<close>, any other number: a fraction, a number of magnitude \<open>2^53\<close> or more,
    an infinity. Such a number is truthy; it is given by the text of its string conversion
    (\<open>1.5\<close>, \<open>1e+21\<close>, \<open>Infinity\<close>).
\<close>

datatype jsnum = Integer bool "53 word" | NaN | Other string

text \<open>
  A filter object is read from a request, so each of its properties holds any JSON value
  or is absent (\<open>undefined\<close>); arrays and nested objects are rejected by the route's schema
  and are not modelled.
\<close>

datatype jsval = JUndefined | JNull | JBool bool | JNum jsnum | JStr string

text \<open>The truthiness test of \<open>if (x)\<close>.\<close>

fun truthy :: "jsval \<Rightarrow> bool" where
  "truthy JUndefined = False"
| "truthy JNull = False"
| "truthy (JBool b) = b"
| "truthy (JNum (Integer neg m)) = (m \<noteq> 0)"
| "truthy (JNum NaN) = False"
| "truthy (JNum (Other text)) = True"
| "truthy (JStr s) = (s \<noteq> [])"

text \<open>The string conversion of a number.\<close>

fun number_to_string :: "jsnum \<Rightarrow> string" where
  "number_to_string (Integer neg m) =
     (if neg \<and> m \<noteq> 0 then ''-'' else []) @ string_of_nat (unat m)"
| "number_to_string NaN = ''NaN''"
| "number_to_string (Other text) = text"

text \<open>String conversion, as a template literal and \<open>toString\<close> apply it.\<close>

fun js_to_string :: "jsval \<Rightarrow> string" where
  "js_to_string JUndefined = ''undefined''"
| "js_to_string JNull = ''null''"
| "js_to_string (JBool b) = (if b then ''true'' else ''false'')"
| "js_to_string (JNum x) = number_to_string x"
| "js_to_string (JStr s) = s"

section \<open>The pg-format package\<close>

text \<open>
  Modelled from the spec: \<open>format\<close> is the function of the npm package pg-format, which
  the models import and which is not among the sources of this repository. The spec asks
  that the user's string reach the SQL text "escaped/quoted"; the model below is the
  package's literal quoting for the values of \<open>jsval\<close>: \<open>NULL\<close> for null and undefined,
  \<open>'t'\<close> and \<open>'f'\<close> for the booleans, and for a string or a number its text between single
  quotes, with every single quote and every backslash doubled and the prefix \<open>E\<close> when the
  text holds a backslash.
\<close>

fun escape_literal :: "string \<Rightarrow> string" where
  "escape_literal [] = []"
| "escape_literal (c # cs) =
     (if c = squote then [c, c] @ escape_literal cs
      else if c = backslash then [c, c] @ escape_literal cs
      else c # escape_literal cs)"

definition quote_text :: "string \<Rightarrow> string" where
  "quote_text literal =
     (if backslash \<in> set literal then ''E'' else [])
     @ [squote] @ escape_literal literal @ [squote]"

fun quoteLiteral :: "jsval \<Rightarrow> string" where
  "quoteLiteral JUndefined = ''NULL''"
| "quoteLiteral JNull = ''NULL''"
| "quoteLiteral (JBool b) = (if b then [squote, CHR ''t'', squote] else [squote, CHR ''f'', squote])"
| "quoteLiteral (JNum x) = quote_text (number_to_string x)"
| "quoteLiteral (JStr s) = quote_text s"

text \<open>
  Modelled from the spec: \<open>format\<close> of pg-format, which copies the pattern and replaces
  each \<open>%L\<close> by the literal quoting of the next argument and \<open>%%\<close> by a percent sign; with
  no argument left for a \<open>%L\<close> it raises an error. The directives \<open>%I\<close> and \<open>%s\<close> and
  the positional forms do not occur in the patterns of this repository and are not
  modelled.
\<close>

datatype format_error = TooFewArguments

fun format :: "string \<Rightarrow> jsval list \<Rightarrow> format_error + string" where
  "format [] args = Inr []"
| "format [c] args = Inr [c]"
| "format (c # d # fmt) args =
     (if c = CHR ''%'' \<and> d = CHR ''%'' then map_sum id (Cons (CHR ''%'')) (format fmt args)
      else if c = CHR ''%'' \<and> d = CHR ''L'' then
        (case args of
           [] \<Rightarrow> Inl TooFewArguments
         | a # rest \<Rightarrow> map_sum id (append (quoteLiteral a)) (format fmt rest))
      else map_sum id (Cons c) (format (d # fmt) args))"

text \<open>
  How PostgreSQL reads a string constant. It opens with a single quote, or with \<open>E\<close> and
  a single quote for an escape string, and closes at the first single quote that is not
  doubled; a doubled single quote stands for one single quote of the value. In an escape
  string a backslash followed by a backslash or a single quote stands for that character;
  the other backslash sequences are not needed here and the reader gives up on them. In a
  string without the prefix a backslash is an ordinary character. The result is the value
  of the constant and the text left after it.
\<close>

fun read_literal_body :: "bool \<Rightarrow> string \<Rightarrow> (string \<times> string) option" where
  "read_literal_body esc [] = None"
| "read_literal_body esc (c # cs) =
     (if c = squote then
        (case cs of
           [] \<Rightarrow> Some ([], [])
         | d # ds \<Rightarrow>
             if d = squote
             then map_option (\<lambda>(v, r). (squote # v, r)) (read_literal_body esc ds)
             else Some ([], cs))
      else if esc \<and> c = backslash then
        (case cs of
           [] \<Rightarrow> None
         | d # ds \<Rightarrow>
             if d = backslash \<or> d = squote
             then map_option (\<lambda>(v, r). (d # v, r)) (read_literal_body esc ds)
             else None)
      else map_option (\<lambda>(v, r). (c # v, r)) (read_literal_body esc cs))"

definition read_literal :: "string \<Rightarrow> (string \<times> string) option" where
  "read_literal s =
     (case s of
        [] \<Rightarrow> None
      | c # cs \<Rightarrow>
          if c = squote then read_literal_body False cs
          else if c = CHR ''E'' then
            (case cs of
               [] \<Rightarrow> None
             | d # ds \<Rightarrow> if d = squote then read_literal_body True ds else None)
          else None)"

section \<open>models/company.js and models/job.js: the WHERE clause of findAll\<close>

text \<open>
  \<open>conditions.push(format(...))\<close> appends one predicate; an error raised by \<open>format\<close>
  would leave \<open>findAll\<close> at that point. \<open>collect\<close> runs the pushes in order.
\<close>

fun collect :: "(format_error + string) list \<Rightarrow> format_error + string list" where
  "collect [] = Inr []"
| "collect (Inl e # _) = Inl e"
| "collect (Inr c # rest) = map_sum id (Cons c) (collect rest)"

text \<open>
  \<^verbatim>\<open>if (conditions.length) whereClause = 'WHERE ' + conditions.join(' AND ')\<close>,
  the clause being the empty string otherwise.
\<close>

definition whereClause :: "string list \<Rightarrow> string" where
  "whereClause conditions =
     (if length conditions \<noteq> 0 then ''WHERE '' @ join '' AND '' conditions else [])"

record company_filters =
  nameLike :: jsval
  minEmployees :: jsval
  maxEmployees :: jsval

text \<open>
  The argument of \<open>findAll\<close> is a filter object or absent (\<open>None\<close>); a property the
  object does not have reads as \<open>JUndefined\<close>.
\<close>

definition company_conditions :: "company_filters option \<Rightarrow> format_error + string list" where
  "company_conditions filters =
     (case filters of
        None \<Rightarrow> Inr []
      | Some f \<Rightarrow>
          collect
            ((if truthy (nameLike f)
              then [format ''name ILIKE %L'' [JStr (''%'' @ js_to_string (nameLike f) @ ''%'')]]
              else [])
             @ (if truthy (minEmployees f)
                then [format ''num_employees >= %L'' [minEmployees f]]
                else [])
             @ (if truthy (maxEmployees f)
                then [format ''num_employees <= %L'' [maxEmployees f]]
                else [])))"

definition company_whereClause :: "company_filters option \<Rightarrow> format_error + string" where
  "company_whereClause filters = map_sum id whereClause (company_conditions filters)"

record job_filters =
  title :: jsval
  minSalary :: jsval
  hasEquity :: jsval

definition job_conditions :: "job_filters option \<Rightarrow> format_error + string list" where
  "job_conditions filters =
     (case filters of
        None \<Rightarrow> Inr []
      | Some f \<Rightarrow>
          collect
            ((if truthy (title f)
              then [format ''title ILIKE %L'' [JStr (''%'' @ js_to_string (title f) @ ''%'')]]
              else [])
             @ (if truthy (minSalary f)
                then [format ''salary >= %L'' [minSalary f]]
                else [])
             @ (if hasEquity f \<noteq> JUndefined \<and> truthy (hasEquity f)
                then [format ''equity >= 0'' []]
                else if hasEquity f \<noteq> JUndefined \<and> \<not> truthy (hasEquity f)
                then [format ''(equity = 0 OR equity = NULL)'' []]
                else [])))"

definition job_whereClause :: "job_filters option \<Rightarrow> format_error + string" where
  "job_whereClause filters = map_sum id whereClause (job_conditions filters)"

section \<open>models/job.js: Job.create\<close>

text \<open>
  The two tables that \<open>Job.create\<close> touches. A row of \<open>companies\<close> has the columns that
  the SELECT reads; a row of \<open>jobs\<close> has the columns of the INSERT and the \<open>id\<close> that the
  database assigns. Salary and equity are stored as they are given; their type is left
  open.
\<close>

record company_row =
  handle :: string
  name :: string
  num_employees :: "int option"
  description :: string
  logo_url :: "string option"

record ('s, 'e) job_row =
  job_id :: nat
  job_title :: string
  salary :: 's
  equity :: 'e
  company_handle :: string

record ('s, 'e) db =
  companies :: "company_row list"
  jobs :: "('s, 'e) job_row list"
  next_id :: nat

text \<open>The object that \<open>Job.create\<close> returns: the inserted columns and the company.\<close>

record ('s, 'e) created_job =
  created_id :: nat
  created_title :: string
  created_salary :: 's
  created_equity :: 'e
  company :: company_row

text \<open>
  \<^verbatim>\<open>SELECT ... FROM companies WHERE handle = $1\<close>: the rows whose handle is the
  parameter, in table order.
\<close>

definition select_company :: "('s, 'e) db \<Rightarrow> string \<Rightarrow> company_row list" where
  "select_company d companyHandle = filter (\<lambda>c. handle c = companyHandle) (companies d)"

text \<open>
  \<^verbatim>\<open>INSERT INTO jobs (title, salary, equity, company_handle) VALUES ($1, $2, $3, $4)
  RETURNING id, title, salary, equity\<close>: one more row, with the next identifier.
\<close>

definition insert_job ::
  "('s, 'e) db \<Rightarrow> string \<Rightarrow> 's \<Rightarrow> 'e \<Rightarrow> string \<Rightarrow> ('s, 'e) job_row \<times> ('s, 'e) db" where
  "insert_job d t s e companyHandle =
     (let row = \<lparr> job_id = next_id d, job_title = t, salary = s, equity = e,
                   company_handle = companyHandle \<rparr>
      in (row, d\<lparr> jobs := jobs d @ [row], next_id := next_id d + 1 \<rparr>))"

text \<open>
  \<open>Job.create({ title, salary, equity, companyHandle })\<close>, on the database \<open>d\<close>: the
  result or the error raised, and the database afterwards.
\<close>

definition create ::
  "string \<Rightarrow> 's \<Rightarrow> 'e \<Rightarrow> string \<Rightarrow> ('s, 'e) db
   \<Rightarrow> (error + ('s, 'e) created_job) \<times> ('s, 'e) db" where
  "create t s e companyHandle d =
     (case select_company d companyHandle of
        [] \<Rightarrow> (Inl (BadRequestError (''Company handle not found: '' @ companyHandle)), d)
      | c # _ \<Rightarrow>
          (let (job, d') = insert_job d t s e companyHandle
           in (Inr \<lparr> created_id = job_id job, created_title = job_title job,
                      created_salary = salary job, created_equity = equity job,
                      company = c \<rparr>, d')))"

section \<open>middleware/auth.js\<close>

text \<open>
  The identity that a verified credential carries, as the tests of the middleware show it
  in \<open>res.locals.user\<close>.
\<close>

record identity =
  username :: string
  isAdmin :: bool
  iat :: nat

text \<open>
  Modelled from the spec: \<open>authenticateJWT\<close> of \<open>middleware/auth.js\<close>, of which the
  repository's sources hold only the tests. The request carries a bearer credential or
  none; \<open>verify\<close> stands for the verification against the shared secret, which gives the
  claims of a credential that verifies and nothing for one that is malformed, wrongly
  signed or expired. The result is the error handed to the next stage, if any, or the
  identity context: \<open>None\<close> for the empty context.
\<close>

definition authenticateJWT ::
  "('k \<Rightarrow> 't \<Rightarrow> identity option) \<Rightarrow> 'k \<Rightarrow> 't option \<Rightarrow> error + identity option" where
  "authenticateJWT verify secret credential =
     (case credential of
        None \<Rightarrow> Inr None
      | Some token \<Rightarrow>
          (case verify secret token of
             None \<Rightarrow> Inr None
           | Some claims \<Rightarrow>
               Inr (Some \<lparr> username = username claims, isAdmin = isAdmin claims,
                           iat = iat claims \<rparr>)))"

text \<open>
  Modelled from the spec: the three checks of \<open>middleware/auth.js\<close> (the spec's
  requireLoggedIn, requireAdmin and requireAdminOrSelf), of which the repository's sources
  hold only the tests. Each takes the identity context, the third also the user name of
  the route, and either passes or hands \<open>UnauthorizedError\<close> to the next stage.
\<close>

definition ensureLoggedIn :: "identity option \<Rightarrow> error + unit" where
  "ensureLoggedIn ctx = (if ctx \<noteq> None then Inr () else Inl UnauthorizedError)"

definition ensureIsAdmin :: "identity option \<Rightarrow> error + unit" where
  "ensureIsAdmin ctx =
     (case ctx of
        None \<Rightarrow> Inl UnauthorizedError
      | Some user \<Rightarrow> if isAdmin user then Inr () else Inl UnauthorizedError)"

definition ensureIsAdminOrSelf :: "identity option \<Rightarrow> string \<Rightarrow> error + unit" where
  "ensureIsAdminOrSelf ctx target =
     (case ctx of
        None \<Rightarrow> Inl UnauthorizedError
      | Some user \<Rightarrow>
          if isAdmin user \<or> username user = target then Inr () else Inl UnauthorizedError)"

section \<open>Properties of sqlForPartialUpdate\<close>


lemma cols_nth:
  assumes "i < length d"
  shows "cols d m ! i =
           [dquote] @ column_for m (fst (d ! i)) @ [dquote] @ ''=$'' @ string_of_nat (i + 1)"
proof -
  have "enumerate 0 (object_keys d) ! i = (i, fst (d ! i))"
    using assms by (simp add: object_keys_def nth_enumerate_eq)
  then show ?thesis
    using assms by (simp add: cols_def assignment_def object_keys_def)
qed

text \<open>
  C5. Applied to an object with no properties, \<open>sqlForPartialUpdate\<close> raises the
  bad-request (400) error with the message "No data", whatever the column map is; applied
  to an object with at least one property it returns a result and raises nothing.
\<close>

theorem sqlForPartialUpdate_empty_iff_error:
  "sqlForPartialUpdate ([] :: 'v jsobject) jsToSql = Inl (BadRequestError ''No data'')
   \<and> ((d :: 'v jsobject) \<noteq> [] \<longrightarrow> (\<exists>r. sqlForPartialUpdate d jsToSql = Inr r))"
  by (simp add: sqlForPartialUpdate_def object_keys_def)

theorem sqlForPartialUpdate_empty_iff_error_witness:
  "sqlForPartialUpdate ([] :: int jsobject) [''numEmployees'' \<mapsto> ''num_employees'']
     = Inl (BadRequestError ''No data'')
   \<and> [(''name'', 1::int)] \<noteq> []
   \<and> (\<exists>r. sqlForPartialUpdate [(''name'', 1::int)] [''numEmployees'' \<mapsto> ''num_employees'']
             = Inr r)"
  using sqlForPartialUpdate_empty_iff_error
          [where d = "[(''name'', 1::int)]" and jsToSql = "[''numEmployees'' \<mapsto> ''num_employees'']"]
  by simp

lemma string_of_nat_1: "string_of_nat (Suc 0) = ''1''" "string_of_nat 1 = ''1''"
  by (simp_all add: string_of_nat.simps digit_char_def)



lemma sqlForPartialUpdate_nonempty:
  assumes "d \<noteq> []"
  shows "sqlForPartialUpdate d m =
           Inr \<lparr> setCols = join '', '' (cols d m), values_of = map snd d \<rparr>"
  using assms by (simp add: sqlForPartialUpdate_def object_keys_def object_values_def)




text \<open>
  C10. Each assignment puts the resolved column name between two double quotes of its
  own and copies the name as it is, double quotes inside it included. So the field name
  \<open>a"b\<close> gives the fragment \<open>"a"b"=$1\<close>, in which the quoted identifier closes after
  \<open>a\<close> and the rest of the name is left outside it.
\<close>

theorem sqlForPartialUpdate_quotes_not_escaped:
  "(d \<noteq> [] \<longrightarrow>
      (\<exists>r. sqlForPartialUpdate d m = Inr r
          \<and> setCols r = join '', '' (cols d m)
          \<and> (\<forall>i<length d.
                cols d m ! i =
                  dquote # column_for m (fst (d ! i)) @ dquote # ''=$'' @ string_of_nat (i + 1))))
   \<and> dquote \<in> set (''a'' @ [dquote] @ ''b'')
   \<and> sqlForPartialUpdate [(''a'' @ [dquote] @ ''b'', v)] Map.empty
       = Inr \<lparr> setCols = dquote # ''a'' @ dquote # ''b'' @ dquote # ''=$1'', values_of = [v] \<rparr>
   \<and> read_quoted_ident (dquote # ''a'' @ dquote # ''b'' @ dquote # ''=$1'')
       = Some (''a'', ''b'' @ dquote # ''=$1'')"
proof -
  have general: "d \<noteq> [] \<longrightarrow>
      (\<exists>r. sqlForPartialUpdate d m = Inr r
          \<and> setCols r = join '', '' (cols d m)
          \<and> (\<forall>i<length d.
                cols d m ! i =
                  dquote # column_for m (fst (d ! i)) @ dquote # ''=$'' @ string_of_nat (i + 1)))"
    by (simp add: sqlForPartialUpdate_nonempty cols_nth)
  have run: "sqlForPartialUpdate [(''a'' @ [dquote] @ ''b'', v)] Map.empty
       = Inr \<lparr> setCols = dquote # ''a'' @ dquote # ''b'' @ dquote # ''=$1'', values_of = [v] \<rparr>"
    by (simp add: sqlForPartialUpdate_def object_keys_def object_values_def cols_def
          assignment_def column_for_def object_prototype_def native_function_def string_of_nat_1)
  have rd: "read_quoted_ident (dquote # ''a'' @ dquote # ''b'' @ dquote # ''=$1'')
       = Some (''a'', ''b'' @ dquote # ''=$1'')"
    by (simp add: read_quoted_ident_def)
  show ?thesis
    using general run rd by simp
qed

theorem sqlForPartialUpdate_quotes_not_escaped_witness:
  "[(''title'', 7::int)] \<noteq> []
   \<and> (\<exists>r. sqlForPartialUpdate [(''title'', 7::int)] Map.empty = Inr r
         \<and> setCols r = dquote # ''title'' @ dquote # ''=$1'')"
proof -
  have "cols [(''title'', 7::int)] Map.empty = [dquote # ''title'' @ dquote # ''=$1'']"
    by (simp add: cols_def object_keys_def assignment_def column_for_def object_prototype_def native_function_def string_of_nat_1)
  then show ?thesis
    using sqlForPartialUpdate_quotes_not_escaped
            [where d = "[(''title'', 7::int)]" and m = Map.empty and v = "0::int"]
    by auto
qed

section \<open>Properties of the WHERE clause\<close>

lemma format_name_ILIKE: "format ''name ILIKE %L'' [a] = Inr (''name ILIKE '' @ quoteLiteral a)"
  by simp

lemma format_title_ILIKE: "format ''title ILIKE %L'' [a] = Inr (''title ILIKE '' @ quoteLiteral a)"
  by simp

lemma format_min_employees:
  "format ''num_employees >= %L'' [a] = Inr (''num_employees >= '' @ quoteLiteral a)"
  by simp

lemma format_max_employees:
  "format ''num_employees <= %L'' [a] = Inr (''num_employees <= '' @ quoteLiteral a)"
  by simp

lemma format_min_salary: "format ''salary >= %L'' [a] = Inr (''salary >= '' @ quoteLiteral a)"
  by simp

lemma format_has_equity: "format ''equity >= 0'' [] = Inr ''equity >= 0''"
  by simp

lemma format_no_equity:
  "format ''(equity = 0 OR equity = NULL)'' [] = Inr ''(equity = 0 OR equity = NULL)''"
  by simp

lemmas format_calls =
  format_name_ILIKE format_title_ILIKE format_min_employees format_max_employees
  format_min_salary format_has_equity format_no_equity

lemma read_literal_body_escape:
  assumes "esc \<or> backslash \<notin> set s" and "tail = [] \<or> hd tail \<noteq> squote"
  shows "read_literal_body esc (escape_literal s @ squote # tail) = Some (s, tail)"
  using assms
proof (induction s)
  case Nil
  then show ?case by (cases tail) auto
next
  case (Cons c s)
  then show ?case by auto
qed

lemma read_literal_quote_text:
  assumes "tail = [] \<or> hd tail \<noteq> squote"
  shows "read_literal (quote_text s @ tail) = Some (s, tail)"
  using read_literal_body_escape [OF _ assms, of "backslash \<in> set s" s]
  by (auto simp add: read_literal_def quote_text_def)

lemma company_conditions_Some:
  "company_conditions (Some f) =
     Inr ((if truthy (nameLike f)
           then [''name ILIKE '' @ quote_text (''%'' @ js_to_string (nameLike f) @ ''%'')]
           else [])
          @ (if truthy (minEmployees f)
             then [''num_employees >= '' @ quoteLiteral (minEmployees f)]
             else [])
          @ (if truthy (maxEmployees f)
             then [''num_employees <= '' @ quoteLiteral (maxEmployees f)]
             else []))"
  unfolding company_conditions_def format_calls by simp

lemma job_conditions_Some:
  "job_conditions (Some f) =
     Inr ((if truthy (title f)
           then [''title ILIKE '' @ quote_text (''%'' @ js_to_string (title f) @ ''%'')]
           else [])
          @ (if truthy (minSalary f)
             then [''salary >= '' @ quoteLiteral (minSalary f)]
             else [])
          @ (if hasEquity f = JUndefined then []
             else if truthy (hasEquity f) then [''equity >= 0'']
             else [''(equity = 0 OR equity = NULL)'']))"
  unfolding job_conditions_def format_calls by simp

lemma whereClause_Cons:
  "whereClause (c # rest) =
     ''WHERE '' @ c @ (if rest = [] then [] else '' AND '' @ join '' AND '' rest)"
  by (cases rest) (simp_all add: whereClause_def)

lemma digit_char_in: "d < 10 \<Longrightarrow> digit_char d \<in> set ''0123456789''"
  unfolding digit_char_def by (rule nth_mem) simp

lemma string_of_nat_digits: "set (string_of_nat n) \<subseteq> set ''0123456789''"
proof (induction n rule: string_of_nat.induct)
  case (1 n)
  show ?case
  proof (cases "n < 10")
    case True
    then show ?thesis
      using digit_char_in [of n] by (subst string_of_nat.simps) simp
  next
    case False
    have "digit_char (n mod 10) \<in> set ''0123456789''"
      by (rule digit_char_in) simp
    with False 1 show ?thesis
      by (subst string_of_nat.simps) simp
  qed
qed

lemma escape_literal_plain:
  "squote \<notin> set s \<Longrightarrow> backslash \<notin> set s \<Longrightarrow> escape_literal s = s"
  by (induction s) auto

lemma quote_text_string_of_nat:
  "quote_text (string_of_nat n) = [squote] @ string_of_nat n @ [squote]"
proof -
  have "squote \<notin> set (string_of_nat n)" "backslash \<notin> set (string_of_nat n)"
    using string_of_nat_digits [of n] by auto
  then show ?thesis
    by (simp add: quote_text_def escape_literal_plain)
qed

text \<open>
  C2. When \<open>nameLike\<close> (companies) or \<open>title\<close> (jobs) is truthy, the first predicate is
  \<open>name ILIKE\<close> (resp. \<open>title ILIKE\<close>), the case-insensitive match, applied to the
  literal quoting of the value between two percent signs, and the WHERE clause opens with
  it. Read back as PostgreSQL reads a string constant, the quoted text is one complete
  constant whose value is exactly that pattern, whatever characters the value holds, single
  quotes and backslashes included; what follows the constant is the builder's own text.
\<close>

theorem substring_filter_is_quoted:
  "(truthy (nameLike cf) \<longrightarrow>
      (\<exists>rest tail.
         company_conditions (Some cf)
           = Inr ((''name ILIKE '' @ quoteLiteral (JStr (''%'' @ js_to_string (nameLike cf) @ ''%''))) # rest)
         \<and> company_whereClause (Some cf)
           = Inr (''WHERE name ILIKE ''
                  @ quoteLiteral (JStr (''%'' @ js_to_string (nameLike cf) @ ''%'')) @ tail)
         \<and> read_literal (quoteLiteral (JStr (''%'' @ js_to_string (nameLike cf) @ ''%'')) @ tail)
           = Some (''%'' @ js_to_string (nameLike cf) @ ''%'', tail)))
   \<and> (truthy (title jf) \<longrightarrow>
      (\<exists>rest tail.
         job_conditions (Some jf)
           = Inr ((''title ILIKE '' @ quoteLiteral (JStr (''%'' @ js_to_string (title jf) @ ''%''))) # rest)
         \<and> job_whereClause (Some jf)
           = Inr (''WHERE title ILIKE ''
                  @ quoteLiteral (JStr (''%'' @ js_to_string (title jf) @ ''%'')) @ tail)
         \<and> read_literal (quoteLiteral (JStr (''%'' @ js_to_string (title jf) @ ''%'')) @ tail)
           = Some (''%'' @ js_to_string (title jf) @ ''%'', tail)))"
proof (intro conjI impI)
  assume t: "truthy (nameLike cf)"
  define lit where "lit = quote_text (''%'' @ js_to_string (nameLike cf) @ ''%'')"
  define rest where "rest =
    (if truthy (minEmployees cf) then [''num_employees >= '' @ quoteLiteral (minEmployees cf)] else [])
    @ (if truthy (maxEmployees cf) then [''num_employees <= '' @ quoteLiteral (maxEmployees cf)] else [])"
  define tail where "tail = (if rest = [] then [] else '' AND '' @ join '' AND '' rest)"
  have c: "company_conditions (Some cf) = Inr ((''name ILIKE '' @ lit) # rest)"
    using t by (simp add: company_conditions_Some lit_def rest_def)
  have w: "company_whereClause (Some cf) = Inr (''WHERE name ILIKE '' @ lit @ tail)"
    by (simp add: company_whereClause_def c whereClause_Cons tail_def)
  have "tail = [] \<or> hd tail \<noteq> squote"
    by (simp add: tail_def)
  then have r: "read_literal (lit @ tail) = Some (''%'' @ js_to_string (nameLike cf) @ ''%'', tail)"
    unfolding lit_def by (rule read_literal_quote_text)
  show "\<exists>rest tail.
         company_conditions (Some cf)
           = Inr ((''name ILIKE '' @ quoteLiteral (JStr (''%'' @ js_to_string (nameLike cf) @ ''%''))) # rest)
         \<and> company_whereClause (Some cf)
           = Inr (''WHERE name ILIKE ''
                  @ quoteLiteral (JStr (''%'' @ js_to_string (nameLike cf) @ ''%'')) @ tail)
         \<and> read_literal (quoteLiteral (JStr (''%'' @ js_to_string (nameLike cf) @ ''%'')) @ tail)
           = Some (''%'' @ js_to_string (nameLike cf) @ ''%'', tail)"
    using c w r unfolding lit_def quoteLiteral.simps by blast
next
  assume t: "truthy (title jf)"
  define lit where "lit = quote_text (''%'' @ js_to_string (title jf) @ ''%'')"
  define rest where "rest =
    (if truthy (minSalary jf) then [''salary >= '' @ quoteLiteral (minSalary jf)] else [])
    @ (if hasEquity jf = JUndefined then []
       else if truthy (hasEquity jf) then [''equity >= 0'']
       else [''(equity = 0 OR equity = NULL)''])"
  define tail where "tail = (if rest = [] then [] else '' AND '' @ join '' AND '' rest)"
  have c: "job_conditions (Some jf) = Inr ((''title ILIKE '' @ lit) # rest)"
    using t by (simp add: job_conditions_Some lit_def rest_def)
  have w: "job_whereClause (Some jf) = Inr (''WHERE title ILIKE '' @ lit @ tail)"
    by (simp add: job_whereClause_def c whereClause_Cons tail_def)
  have "tail = [] \<or> hd tail \<noteq> squote"
    by (simp add: tail_def)
  then have r: "read_literal (lit @ tail) = Some (''%'' @ js_to_string (title jf) @ ''%'', tail)"
    unfolding lit_def by (rule read_literal_quote_text)
  show "\<exists>rest tail.
         job_conditions (Some jf)
           = Inr ((''title ILIKE '' @ quoteLiteral (JStr (''%'' @ js_to_string (title jf) @ ''%''))) # rest)
         \<and> job_whereClause (Some jf)
           = Inr (''WHERE title ILIKE ''
                  @ quoteLiteral (JStr (''%'' @ js_to_string (title jf) @ ''%'')) @ tail)
         \<and> read_literal (quoteLiteral (JStr (''%'' @ js_to_string (title jf) @ ''%'')) @ tail)
           = Some (''%'' @ js_to_string (title jf) @ ''%'', tail)"
    using c w r unfolding lit_def quoteLiteral.simps by blast
qed

theorem substring_filter_is_quoted_witness:
  "truthy (nameLike \<lparr> nameLike = JStr (''o'' @ [squote] @ ''r''), minEmployees = JNum (Integer False 5),
                      maxEmployees = JUndefined \<rparr>)
   \<and> truthy (title \<lparr> title = JStr (''a'' @ [backslash, squote]), minSalary = JUndefined,
                     hasEquity = JUndefined \<rparr>)
   \<and> (\<exists>tail.
        company_whereClause (Some \<lparr> nameLike = JStr (''o'' @ [squote] @ ''r''),
                                    minEmployees = JNum (Integer False 5), maxEmployees = JUndefined \<rparr>)
          = Inr (''WHERE name ILIKE '' @ [squote] @ ''%o'' @ [squote, squote] @ ''r%'' @ [squote]
                 @ tail)
        \<and> read_literal ([squote] @ ''%o'' @ [squote, squote] @ ''r%'' @ [squote] @ tail)
          = Some (''%o'' @ [squote] @ ''r%'', tail))
   \<and> (\<exists>tail.
        job_whereClause (Some \<lparr> title = JStr (''a'' @ [backslash, squote]),
                                minSalary = JUndefined, hasEquity = JUndefined \<rparr>)
          = Inr (''WHERE title ILIKE E'' @ [squote] @ ''%a''
                 @ [backslash, backslash, squote, squote] @ ''%'' @ [squote] @ tail)
        \<and> read_literal (''E'' @ [squote] @ ''%a'' @ [backslash, backslash, squote, squote]
                         @ ''%'' @ [squote] @ tail)
          = Some (''%a'' @ [backslash, squote] @ ''%'', tail))"
  using substring_filter_is_quoted
          [of "\<lparr> nameLike = JStr (''o'' @ [squote] @ ''r''), minEmployees = JNum (Integer False 5),
                 maxEmployees = JUndefined \<rparr>"
              "\<lparr> title = JStr (''a'' @ [backslash, squote]), minSalary = JUndefined,
                 hasEquity = JUndefined \<rparr>"]
  by (simp add: quote_text_def)

text \<open>
  C6, as amended. With no filter object the clause is the empty string. With a filter
  object it is the empty string when \<open>nameLike\<close>, \<open>minEmployees\<close> and \<open>maxEmployees\<close> are
  absent or falsy (companies), resp. when \<open>title\<close> and \<open>minSalary\<close> are absent or falsy and
  \<open>hasEquity\<close> is undefined (jobs). In general the predicates come in the fixed order name
  or title, then the numeric bounds, then the equity flag, and the clause is \<open>WHERE\<close>
  followed by the predicates joined with \<open>AND\<close> when there is at least one predicate, and
  the empty string when there is none. The builder raises no error.
\<close>

theorem where_clause_shape:
  "company_whereClause None = Inr []
   \<and> job_whereClause None = Inr []
   \<and> (\<not> truthy (nameLike cf) \<and> \<not> truthy (minEmployees cf) \<and> \<not> truthy (maxEmployees cf)
        \<longrightarrow> company_whereClause (Some cf) = Inr [])
   \<and> (\<not> truthy (title jf) \<and> \<not> truthy (minSalary jf) \<and> hasEquity jf = JUndefined
        \<longrightarrow> job_whereClause (Some jf) = Inr [])
   \<and> (\<exists>cs. company_conditions (Some cf) = Inr cs
         \<and> cs = (if truthy (nameLike cf)
                  then [''name ILIKE ''
                        @ quoteLiteral (JStr (''%'' @ js_to_string (nameLike cf) @ ''%''))]
                  else [])
                 @ (if truthy (minEmployees cf)
                    then [''num_employees >= '' @ quoteLiteral (minEmployees cf)] else [])
                 @ (if truthy (maxEmployees cf)
                    then [''num_employees <= '' @ quoteLiteral (maxEmployees cf)] else [])
         \<and> company_whereClause (Some cf)
             = Inr (if cs = [] then [] else ''WHERE '' @ join '' AND '' cs))
   \<and> (\<exists>cs. job_conditions (Some jf) = Inr cs
         \<and> cs = (if truthy (title jf)
                  then [''title ILIKE ''
                        @ quoteLiteral (JStr (''%'' @ js_to_string (title jf) @ ''%''))]
                  else [])
                 @ (if truthy (minSalary jf)
                    then [''salary >= '' @ quoteLiteral (minSalary jf)] else [])
                 @ (if hasEquity jf = JUndefined then []
                    else if truthy (hasEquity jf) then [''equity >= 0'']
                    else [''(equity = 0 OR equity = NULL)''])
         \<and> job_whereClause (Some jf)
             = Inr (if cs = [] then [] else ''WHERE '' @ join '' AND '' cs))"
proof (intro conjI impI)
  show "company_whereClause None = Inr []"
    by (simp add: company_whereClause_def company_conditions_def whereClause_def)
  show "job_whereClause None = Inr []"
    by (simp add: job_whereClause_def job_conditions_def whereClause_def)
next
  assume "\<not> truthy (nameLike cf) \<and> \<not> truthy (minEmployees cf) \<and> \<not> truthy (maxEmployees cf)"
  then show "company_whereClause (Some cf) = Inr []"
    by (simp add: company_whereClause_def company_conditions_Some whereClause_def)
next
  assume "\<not> truthy (title jf) \<and> \<not> truthy (minSalary jf) \<and> hasEquity jf = JUndefined"
  then show "job_whereClause (Some jf) = Inr []"
    by (simp add: job_whereClause_def job_conditions_Some whereClause_def)
next
  show "\<exists>cs. company_conditions (Some cf) = Inr cs
         \<and> cs = (if truthy (nameLike cf)
                  then [''name ILIKE ''
                        @ quoteLiteral (JStr (''%'' @ js_to_string (nameLike cf) @ ''%''))]
                  else [])
                 @ (if truthy (minEmployees cf)
                    then [''num_employees >= '' @ quoteLiteral (minEmployees cf)] else [])
                 @ (if truthy (maxEmployees cf)
                    then [''num_employees <= '' @ quoteLiteral (maxEmployees cf)] else [])
         \<and> company_whereClause (Some cf)
             = Inr (if cs = [] then [] else ''WHERE '' @ join '' AND '' cs)"
    by (simp add: company_whereClause_def company_conditions_Some whereClause_def)
next
  show "\<exists>cs. job_conditions (Some jf) = Inr cs
         \<and> cs = (if truthy (title jf)
                  then [''title ILIKE ''
                        @ quoteLiteral (JStr (''%'' @ js_to_string (title jf) @ ''%''))]
                  else [])
                 @ (if truthy (minSalary jf)
                    then [''salary >= '' @ quoteLiteral (minSalary jf)] else [])
                 @ (if hasEquity jf = JUndefined then []
                    else if truthy (hasEquity jf) then [''equity >= 0'']
                    else [''(equity = 0 OR equity = NULL)''])
         \<and> job_whereClause (Some jf)
             = Inr (if cs = [] then [] else ''WHERE '' @ join '' AND '' cs)"
    by (simp add: job_whereClause_def job_conditions_Some whereClause_def)
qed

theorem where_clause_shape_witness:
  "\<not> truthy (nameLike \<lparr> nameLike = JStr [], minEmployees = JNum (Integer False 0), maxEmployees = JNull \<rparr>)
   \<and> \<not> truthy (minEmployees \<lparr> nameLike = JStr [], minEmployees = JNum (Integer False 0), maxEmployees = JNull \<rparr>)
   \<and> \<not> truthy (maxEmployees \<lparr> nameLike = JStr [], minEmployees = JNum (Integer False 0), maxEmployees = JNull \<rparr>)
   \<and> company_whereClause (Some \<lparr> nameLike = JStr [], minEmployees = JNum (Integer False 0), maxEmployees = JNull \<rparr>)
       = Inr []
   \<and> \<not> truthy (title \<lparr> title = JStr [], minSalary = JNum (Integer True 0), hasEquity = JUndefined \<rparr>)
   \<and> \<not> truthy (minSalary \<lparr> title = JStr [], minSalary = JNum (Integer True 0), hasEquity = JUndefined \<rparr>)
   \<and> hasEquity \<lparr> title = JStr [], minSalary = JNum (Integer True 0), hasEquity = JUndefined \<rparr> = JUndefined
   \<and> job_whereClause (Some \<lparr> title = JStr [], minSalary = JNum (Integer True 0), hasEquity = JUndefined \<rparr>)
       = Inr []"
  using where_clause_shape
          [of "\<lparr> nameLike = JStr [], minEmployees = JNum (Integer False 0), maxEmployees = JNull \<rparr>"
              "\<lparr> title = JStr [], minSalary = JNum (Integer True 0), hasEquity = JUndefined \<rparr>"]
  by simp

text \<open>
  The claim as written fails for a job filter whose only key is \<open>hasEquity = false\<close>:
  every recognised key is absent or falsy, and the clause is not empty.
\<close>

theorem where_clause_falsy_hasEquity_counterexample:
  "\<not> truthy (title \<lparr> title = JUndefined, minSalary = JUndefined, hasEquity = JBool False \<rparr>)
   \<and> \<not> truthy (minSalary \<lparr> title = JUndefined, minSalary = JUndefined, hasEquity = JBool False \<rparr>)
   \<and> \<not> truthy (hasEquity \<lparr> title = JUndefined, minSalary = JUndefined, hasEquity = JBool False \<rparr>)
   \<and> job_whereClause (Some \<lparr> title = JUndefined, minSalary = JUndefined, hasEquity = JBool False \<rparr>)
       = Inr ''WHERE (equity = 0 OR equity = NULL)''
   \<and> job_whereClause (Some \<lparr> title = JUndefined, minSalary = JUndefined, hasEquity = JBool False \<rparr>)
       \<noteq> Inr []"
  by (simp add: job_whereClause_def job_conditions_def whereClause_def)

text \<open>
  C7. Take a company filter and write \<open>name_part\<close> for the predicates that \<open>nameLike\<close>
  gives and \<open>max_part\<close> for those that \<open>maxEmployees\<close> gives (each is one predicate or
  none). With \<open>minEmployees\<close> equal to the number 0, of either sign, the predicates are
  \<open>name_part\<close> and \<open>max_part\<close> alone and the emitted clause is the one built from them: no
  predicate on the minimum. With \<open>minEmployees\<close> a positive integer \<open>m\<close> below \<open>2^53\<close>, the
  emitted clause is \<open>WHERE\<close> followed by \<open>name_part\<close>, then \<open>num_employees >= 'm'\<close> with
  \<open>m\<close> in decimal digits, then \<open>max_part\<close>, joined with \<open>AND\<close>. With \<open>minEmployees\<close> any
  other number apart from NaN (a fraction, a number from \<open>2^53\<close> on), the clause is the same
  with the quoted text of the number's string conversion for the value. The same holds for
  a job filter, with \<open>minSalary\<close> and \<open>salary >= \<close>, between the predicates of \<open>title\<close> and
  of \<open>hasEquity\<close>.
\<close>

theorem zero_minimum_is_absent:
  "(let name_part =
          (if truthy (nameLike cf)
           then [''name ILIKE ''
                 @ quoteLiteral (JStr (''%'' @ js_to_string (nameLike cf) @ ''%''))]
           else []);
        max_part =
          (if truthy (maxEmployees cf)
           then [''num_employees <= '' @ quoteLiteral (maxEmployees cf)] else [])
    in (minEmployees cf = JNum (Integer neg 0) \<longrightarrow>
          company_conditions (Some cf) = Inr (name_part @ max_part)
          \<and> company_whereClause (Some cf)
              = Inr (if name_part @ max_part = [] then []
                     else ''WHERE '' @ join '' AND '' (name_part @ max_part)))
       \<and> (m \<noteq> 0 \<and> minEmployees cf = JNum (Integer False m) \<longrightarrow>
          company_conditions (Some cf)
            = Inr (name_part
                   @ [''num_employees >= '' @ [squote] @ string_of_nat (unat m) @ [squote]]
                   @ max_part)
          \<and> company_whereClause (Some cf)
              = Inr (''WHERE ''
                     @ join '' AND ''
                         (name_part
                          @ [''num_employees >= '' @ [squote] @ string_of_nat (unat m)
                             @ [squote]]
                          @ max_part)))
       \<and> (minEmployees cf = JNum (Other printed) \<longrightarrow>
          company_conditions (Some cf)
            = Inr (name_part @ [''num_employees >= '' @ quote_text printed] @ max_part)
          \<and> company_whereClause (Some cf)
              = Inr (''WHERE ''
                     @ join '' AND ''
                         (name_part @ [''num_employees >= '' @ quote_text printed] @ max_part))))
   \<and> (let title_part =
          (if truthy (title jf)
           then [''title ILIKE ''
                 @ quoteLiteral (JStr (''%'' @ js_to_string (title jf) @ ''%''))]
           else []);
        equity_part =
          (if hasEquity jf = JUndefined then []
           else if truthy (hasEquity jf) then [''equity >= 0'']
           else [''(equity = 0 OR equity = NULL)''])
    in (minSalary jf = JNum (Integer neg 0) \<longrightarrow>
          job_conditions (Some jf) = Inr (title_part @ equity_part)
          \<and> job_whereClause (Some jf)
              = Inr (if title_part @ equity_part = [] then []
                     else ''WHERE '' @ join '' AND '' (title_part @ equity_part)))
       \<and> (m \<noteq> 0 \<and> minSalary jf = JNum (Integer False m) \<longrightarrow>
          job_conditions (Some jf)
            = Inr (title_part
                   @ [''salary >= '' @ [squote] @ string_of_nat (unat m) @ [squote]]
                   @ equity_part)
          \<and> job_whereClause (Some jf)
              = Inr (''WHERE ''
                     @ join '' AND ''
                         (title_part
                          @ [''salary >= '' @ [squote] @ string_of_nat (unat m) @ [squote]]
                          @ equity_part)))
       \<and> (minSalary jf = JNum (Other printed) \<longrightarrow>
          job_conditions (Some jf)
            = Inr (title_part @ [''salary >= '' @ quote_text printed] @ equity_part)
          \<and> job_whereClause (Some jf)
              = Inr (''WHERE ''
                     @ join '' AND ''
                         (title_part @ [''salary >= '' @ quote_text printed] @ equity_part))))"
  unfolding Let_def
proof (intro conjI impI)
  assume "minEmployees cf = JNum (Integer neg 0)"
  then show "company_conditions (Some cf)
      = Inr ((if truthy (nameLike cf)
              then [''name ILIKE ''
                    @ quoteLiteral (JStr (''%'' @ js_to_string (nameLike cf) @ ''%''))]
              else [])
             @ (if truthy (maxEmployees cf)
                then [''num_employees <= '' @ quoteLiteral (maxEmployees cf)] else []))"
    by (simp add: company_conditions_Some)
  then show "company_whereClause (Some cf)
      = Inr (if (if truthy (nameLike cf)
                 then [''name ILIKE ''
                       @ quoteLiteral (JStr (''%'' @ js_to_string (nameLike cf) @ ''%''))]
                 else [])
                @ (if truthy (maxEmployees cf)
                   then [''num_employees <= '' @ quoteLiteral (maxEmployees cf)] else [])
                = []
             then []
             else ''WHERE ''
                  @ join '' AND ''
                      ((if truthy (nameLike cf)
                        then [''name ILIKE ''
                              @ quoteLiteral (JStr (''%'' @ js_to_string (nameLike cf) @ ''%''))]
                        else [])
                       @ (if truthy (maxEmployees cf)
                          then [''num_employees <= '' @ quoteLiteral (maxEmployees cf)]
                          else [])))"
    by (simp add: company_whereClause_def whereClause_def)
next
  assume "m \<noteq> 0 \<and> minEmployees cf = JNum (Integer False m)"
  then show "company_conditions (Some cf)
      = Inr ((if truthy (nameLike cf)
              then [''name ILIKE ''
                    @ quoteLiteral (JStr (''%'' @ js_to_string (nameLike cf) @ ''%''))]
              else [])
             @ [''num_employees >= '' @ [squote] @ string_of_nat (unat m) @ [squote]]
             @ (if truthy (maxEmployees cf)
                then [''num_employees <= '' @ quoteLiteral (maxEmployees cf)] else []))"
    by (simp add: company_conditions_Some quote_text_string_of_nat)
  then show "company_whereClause (Some cf)
      = Inr (''WHERE ''
             @ join '' AND ''
                 ((if truthy (nameLike cf)
                   then [''name ILIKE ''
                         @ quoteLiteral (JStr (''%'' @ js_to_string (nameLike cf) @ ''%''))]
                   else [])
                  @ [''num_employees >= '' @ [squote] @ string_of_nat (unat m) @ [squote]]
                  @ (if truthy (maxEmployees cf)
                     then [''num_employees <= '' @ quoteLiteral (maxEmployees cf)] else [])))"
    by (simp add: company_whereClause_def whereClause_def)
next
  assume "minEmployees cf = JNum (Other printed)"
  then show "company_conditions (Some cf)
      = Inr ((if truthy (nameLike cf)
              then [''name ILIKE ''
                    @ quoteLiteral (JStr (''%'' @ js_to_string (nameLike cf) @ ''%''))]
              else [])
             @ [''num_employees >= '' @ quote_text printed]
             @ (if truthy (maxEmployees cf)
                then [''num_employees <= '' @ quoteLiteral (maxEmployees cf)] else []))"
    by (simp add: company_conditions_Some)
  then show "company_whereClause (Some cf)
      = Inr (''WHERE ''
             @ join '' AND ''
                 ((if truthy (nameLike cf)
                   then [''name ILIKE ''
                         @ quoteLiteral (JStr (''%'' @ js_to_string (nameLike cf) @ ''%''))]
                   else [])
                  @ [''num_employees >= '' @ quote_text printed]
                  @ (if truthy (maxEmployees cf)
                     then [''num_employees <= '' @ quoteLiteral (maxEmployees cf)] else [])))"
    by (simp add: company_whereClause_def whereClause_def)
next
  assume "minSalary jf = JNum (Integer neg 0)"
  then show "job_conditions (Some jf)
      = Inr ((if truthy (title jf)
              then [''title ILIKE ''
                    @ quoteLiteral (JStr (''%'' @ js_to_string (title jf) @ ''%''))]
              else [])
             @ (if hasEquity jf = JUndefined then []
                else if truthy (hasEquity jf) then [''equity >= 0'']
                else [''(equity = 0 OR equity = NULL)'']))"
    by (simp add: job_conditions_Some)
  then show "job_whereClause (Some jf)
      = Inr (if (if truthy (title jf)
                 then [''title ILIKE ''
                       @ quoteLiteral (JStr (''%'' @ js_to_string (title jf) @ ''%''))]
                 else [])
                @ (if hasEquity jf = JUndefined then []
                   else if truthy (hasEquity jf) then [''equity >= 0'']
                   else [''(equity = 0 OR equity = NULL)''])
                = []
             then []
             else ''WHERE ''
                  @ join '' AND ''
                      ((if truthy (title jf)
                        then [''title ILIKE ''
                              @ quoteLiteral (JStr (''%'' @ js_to_string (title jf) @ ''%''))]
                        else [])
                       @ (if hasEquity jf = JUndefined then []
                          else if truthy (hasEquity jf) then [''equity >= 0'']
                          else [''(equity = 0 OR equity = NULL)''])))"
    by (simp add: job_whereClause_def whereClause_def)
next
  assume "m \<noteq> 0 \<and> minSalary jf = JNum (Integer False m)"
  then show "job_conditions (Some jf)
      = Inr ((if truthy (title jf)
              then [''title ILIKE ''
                    @ quoteLiteral (JStr (''%'' @ js_to_string (title jf) @ ''%''))]
              else [])
             @ [''salary >= '' @ [squote] @ string_of_nat (unat m) @ [squote]]
             @ (if hasEquity jf = JUndefined then []
                else if truthy (hasEquity jf) then [''equity >= 0'']
                else [''(equity = 0 OR equity = NULL)'']))"
    by (simp add: job_conditions_Some quote_text_string_of_nat)
  then show "job_whereClause (Some jf)
      = Inr (''WHERE ''
             @ join '' AND ''
                 ((if truthy (title jf)
                   then [''title ILIKE ''
                         @ quoteLiteral (JStr (''%'' @ js_to_string (title jf) @ ''%''))]
                   else [])
                  @ [''salary >= '' @ [squote] @ string_of_nat (unat m) @ [squote]]
                  @ (if hasEquity jf = JUndefined then []
                     else if truthy (hasEquity jf) then [''equity >= 0'']
                     else [''(equity = 0 OR equity = NULL)''])))"
    by (simp add: job_whereClause_def whereClause_def)
next
  assume "minSalary jf = JNum (Other printed)"
  then show "job_conditions (Some jf)
      = Inr ((if truthy (title jf)
              then [''title ILIKE ''
                    @ quoteLiteral (JStr (''%'' @ js_to_string (title jf) @ ''%''))]
              else [])
             @ [''salary >= '' @ quote_text printed]
             @ (if hasEquity jf = JUndefined then []
                else if truthy (hasEquity jf) then [''equity >= 0'']
                else [''(equity = 0 OR equity = NULL)'']))"
    by (simp add: job_conditions_Some)
  then show "job_whereClause (Some jf)
      = Inr (''WHERE ''
             @ join '' AND ''
                 ((if truthy (title jf)
                   then [''title ILIKE ''
                         @ quoteLiteral (JStr (''%'' @ js_to_string (title jf) @ ''%''))]
                   else [])
                  @ [''salary >= '' @ quote_text printed]
                  @ (if hasEquity jf = JUndefined then []
                     else if truthy (hasEquity jf) then [''equity >= 0'']
                     else [''(equity = 0 OR equity = NULL)''])))"
    by (simp add: job_whereClause_def whereClause_def)
qed

theorem zero_minimum_is_absent_witness:
  "company_whereClause
     (Some \<lparr> nameLike = JUndefined, minEmployees = JNum (Integer False 0),
             maxEmployees = JNum (Integer False 9) \<rparr>)
     = Inr (''WHERE num_employees <= '' @ [squote] @ ''9'' @ [squote])
   \<and> (5 :: 53 word) \<noteq> 0
   \<and> company_whereClause
     (Some \<lparr> nameLike = JUndefined, minEmployees = JNum (Integer False 5),
             maxEmployees = JNum (Integer False 9) \<rparr>)
     = Inr (''WHERE num_employees >= '' @ [squote] @ ''5'' @ [squote]
            @ '' AND num_employees <= '' @ [squote] @ ''9'' @ [squote])
   \<and> company_whereClause
     (Some \<lparr> nameLike = JUndefined, minEmployees = JNum (Other ''1e+21''),
             maxEmployees = JNum (Integer False 9) \<rparr>)
     = Inr (''WHERE num_employees >= '' @ [squote] @ ''1e+21'' @ [squote]
            @ '' AND num_employees <= '' @ [squote] @ ''9'' @ [squote])
   \<and> job_whereClause
     (Some \<lparr> title = JUndefined, minSalary = JNum (Integer True 0), hasEquity = JUndefined \<rparr>)
     = Inr []
   \<and> job_whereClause
     (Some \<lparr> title = JUndefined, minSalary = JNum (Integer False 5), hasEquity = JBool True \<rparr>)
     = Inr (''WHERE salary >= '' @ [squote] @ ''5'' @ [squote] @ '' AND equity >= 0'')
   \<and> job_whereClause
     (Some \<lparr> title = JUndefined, minSalary = JNum (Other ''1.5''), hasEquity = JUndefined \<rparr>)
     = Inr (''WHERE salary >= '' @ [squote] @ ''1.5'' @ [squote])"
proof -
  have digits: "string_of_nat 5 = ''5''" "string_of_nat 9 = ''9''"
    by (simp_all add: string_of_nat.simps digit_char_def)
  show ?thesis
    using zero_minimum_is_absent
            [where cf = "\<lparr> nameLike = JUndefined, minEmployees = JNum (Integer False 0),
                           maxEmployees = JNum (Integer False 9) \<rparr>"
               and jf = "\<lparr> title = JUndefined, minSalary = JNum (Integer True 0),
                           hasEquity = JUndefined \<rparr>"
               and neg = False and m = 5 and printed = "''1e+21''"]
          zero_minimum_is_absent
            [where cf = "\<lparr> nameLike = JUndefined, minEmployees = JNum (Integer False 0),
                           maxEmployees = JNum (Integer False 9) \<rparr>"
               and jf = "\<lparr> title = JUndefined, minSalary = JNum (Integer True 0),
                           hasEquity = JUndefined \<rparr>"
               and neg = True and m = 5 and printed = "''1e+21''"]
          zero_minimum_is_absent
            [where cf = "\<lparr> nameLike = JUndefined, minEmployees = JNum (Integer False 5),
                           maxEmployees = JNum (Integer False 9) \<rparr>"
               and jf = "\<lparr> title = JUndefined, minSalary = JNum (Integer False 5),
                           hasEquity = JBool True \<rparr>"
               and neg = False and m = 5 and printed = "''1e+21''"]
          zero_minimum_is_absent
            [where cf = "\<lparr> nameLike = JUndefined, minEmployees = JNum (Other ''1e+21''),
                           maxEmployees = JNum (Integer False 9) \<rparr>"
               and jf = "\<lparr> title = JUndefined, minSalary = JNum (Other ''1.5''),
                           hasEquity = JUndefined \<rparr>"
               and neg = False and m = 5 and printed = "''1e+21''"]
          zero_minimum_is_absent
            [where cf = "\<lparr> nameLike = JUndefined, minEmployees = JNum (Other ''1e+21''),
                           maxEmployees = JNum (Integer False 9) \<rparr>"
               and jf = "\<lparr> title = JUndefined, minSalary = JNum (Other ''1.5''),
                           hasEquity = JUndefined \<rparr>"
               and neg = False and m = 5 and printed = "''1.5''"]
    by (simp add: digits quote_text_def)
qed

text \<open>
  C8. Take a job filter and write \<open>title_part\<close> and \<open>salary_part\<close> for the predicates that
  \<open>title\<close> and \<open>minSalary\<close> give (each is one predicate or none). With \<open>hasEquity\<close> true
  the emitted clause is \<open>WHERE\<close> followed by these predicates and then \<open>equity >= 0\<close>, joined
  with \<open>AND\<close>; with \<open>hasEquity\<close> false the last predicate is
  \<open>(equity = 0 OR equity = NULL)\<close> instead. With \<open>hasEquity\<close> undefined the predicates are
  \<open>title_part\<close> and \<open>salary_part\<close> alone, neither equity predicate is among them, and the
  emitted clause is the one built from them.
\<close>

theorem hasEquity_predicates:
  "(let title_part =
          (if truthy (title jf)
           then [''title ILIKE ''
                 @ quoteLiteral (JStr (''%'' @ js_to_string (title jf) @ ''%''))]
           else []);
        salary_part =
          (if truthy (minSalary jf)
           then [''salary >= '' @ quoteLiteral (minSalary jf)] else [])
    in (hasEquity jf = JBool True \<longrightarrow>
          job_conditions (Some jf) = Inr (title_part @ salary_part @ [''equity >= 0''])
          \<and> job_whereClause (Some jf)
              = Inr (''WHERE ''
                     @ join '' AND '' (title_part @ salary_part @ [''equity >= 0''])))
       \<and> (hasEquity jf = JBool False \<longrightarrow>
          job_conditions (Some jf)
            = Inr (title_part @ salary_part @ [''(equity = 0 OR equity = NULL)''])
          \<and> job_whereClause (Some jf)
              = Inr (''WHERE ''
                     @ join '' AND ''
                         (title_part @ salary_part @ [''(equity = 0 OR equity = NULL)''])))
       \<and> (hasEquity jf = JUndefined \<longrightarrow>
          job_conditions (Some jf) = Inr (title_part @ salary_part)
          \<and> ''equity >= 0'' \<notin> set (title_part @ salary_part)
          \<and> ''(equity = 0 OR equity = NULL)'' \<notin> set (title_part @ salary_part)
          \<and> job_whereClause (Some jf)
              = Inr (if title_part @ salary_part = [] then []
                     else ''WHERE '' @ join '' AND '' (title_part @ salary_part))))"
  by (simp add: Let_def job_conditions_Some job_whereClause_def whereClause_def)

theorem hasEquity_predicates_witness:
  "job_whereClause
     (Some \<lparr> title = JUndefined, minSalary = JNum (Integer False 5), hasEquity = JBool True \<rparr>)
     = Inr (''WHERE salary >= '' @ [squote] @ ''5'' @ [squote] @ '' AND equity >= 0'')
   \<and> job_whereClause
     (Some \<lparr> title = JUndefined, minSalary = JNum (Integer False 5), hasEquity = JBool False \<rparr>)
     = Inr (''WHERE salary >= '' @ [squote] @ ''5'' @ [squote]
            @ '' AND (equity = 0 OR equity = NULL)'')
   \<and> job_whereClause
     (Some \<lparr> title = JUndefined, minSalary = JNum (Integer False 5), hasEquity = JUndefined \<rparr>)
     = Inr (''WHERE salary >= '' @ [squote] @ ''5'' @ [squote])
   \<and> job_whereClause
     (Some \<lparr> title = JUndefined, minSalary = JUndefined, hasEquity = JBool True \<rparr>)
     = Inr ''WHERE equity >= 0''"
proof -
  have five: "string_of_nat 5 = ''5''"
    by (simp add: string_of_nat.simps digit_char_def)
  show ?thesis
    using hasEquity_predicates
            [of "\<lparr> title = JUndefined, minSalary = JNum (Integer False 5),
                   hasEquity = JBool True \<rparr>"]
          hasEquity_predicates
            [of "\<lparr> title = JUndefined, minSalary = JNum (Integer False 5),
                   hasEquity = JBool False \<rparr>"]
          hasEquity_predicates
            [of "\<lparr> title = JUndefined, minSalary = JNum (Integer False 5),
                   hasEquity = JUndefined \<rparr>"]
          hasEquity_predicates
            [of "\<lparr> title = JUndefined, minSalary = JUndefined, hasEquity = JBool True \<rparr>"]
    by (simp add: five quote_text_def)
qed

section \<open>Properties of Job.create\<close>

text \<open>
  C9. When no row of \<open>companies\<close> has the given handle, \<open>Job.create\<close> raises the
  bad-request (400) error that names the handle, and the database is as it was before the
  call: no job row has been inserted.
\<close>

theorem create_unknown_company:
  assumes "\<forall>c \<in> set (companies d). handle c \<noteq> companyHandle"
  shows "create t s e companyHandle d
           = (Inl (BadRequestError (''Company handle not found: '' @ companyHandle)), d)"
proof -
  have "select_company d companyHandle = []"
    using assms by (simp add: select_company_def filter_empty_conv)
  then show ?thesis
    by (simp add: create_def)
qed

theorem create_unknown_company_witness:
  "''c9'' \<notin> set (map handle (companies
        \<lparr> companies = [\<lparr> handle = ''c1'', name = ''C1'', num_employees = Some 1,
                          description = ''Desc1'', logo_url = Some ''http://c1.img'' \<rparr>],
          jobs = ([] :: (int, int) job_row list), next_id = 1 \<rparr>))
   \<and> create ''Lead Developer'' (100000::int) (0::int) ''c9''
        \<lparr> companies = [\<lparr> handle = ''c1'', name = ''C1'', num_employees = Some 1,
                          description = ''Desc1'', logo_url = Some ''http://c1.img'' \<rparr>],
          jobs = [], next_id = 1 \<rparr>
       = (Inl (BadRequestError ''Company handle not found: c9''),
          \<lparr> companies = [\<lparr> handle = ''c1'', name = ''C1'', num_employees = Some 1,
                          description = ''Desc1'', logo_url = Some ''http://c1.img'' \<rparr>],
            jobs = [], next_id = 1 \<rparr>)"
proof -
  have h: "\<forall>c \<in> set (companies
        \<lparr> companies = [\<lparr> handle = ''c1'', name = ''C1'', num_employees = Some 1,
                          description = ''Desc1'', logo_url = Some ''http://c1.img'' \<rparr>],
          jobs = ([] :: (int, int) job_row list), next_id = 1 \<rparr>). handle c \<noteq> ''c9''"
    by simp
  show ?thesis
    using h create_unknown_company [OF h, of "''Lead Developer''" 100000 0] by simp
qed

section \<open>Properties of the authentication middleware\<close>

text \<open>
  C3. \<open>authenticateJWT\<close> never hands an error on. Without a credential, and with a
  credential that does not verify, the identity context stays empty; with a credential
  that verifies, the context holds exactly the user name, the admin flag and the issue time
  of its claims.
\<close>

theorem authenticateJWT_never_fails:
  "authenticateJWT verify secret None = Inr None
   \<and> (verify secret token = None \<longrightarrow> authenticateJWT verify secret (Some token) = Inr None)
   \<and> (verify secret token = Some claims \<longrightarrow>
        authenticateJWT verify secret (Some token)
          = Inr (Some \<lparr> username = username claims, isAdmin = isAdmin claims,
                        iat = iat claims \<rparr>))
   \<and> (\<exists>ctx. authenticateJWT verify secret credential = Inr ctx)"
  by (auto simp add: authenticateJWT_def split: option.splits)

theorem authenticateJWT_never_fails_witness:
  "(\<lambda>k (c, signed). if signed = k then Some c else None) ''secret''
      (\<lparr> username = ''test'', isAdmin = False, iat = 1 \<rparr>, ''wrong'') = None
   \<and> authenticateJWT (\<lambda>k (c, signed). if signed = k then Some c else None) ''secret''
        (Some (\<lparr> username = ''test'', isAdmin = False, iat = 1 \<rparr>, ''wrong'')) = Inr None
   \<and> (\<lambda>k (c, signed). if signed = k then Some c else None) ''secret''
      (\<lparr> username = ''test'', isAdmin = False, iat = 1 \<rparr>, ''secret'')
        = Some \<lparr> username = ''test'', isAdmin = False, iat = 1 \<rparr>
   \<and> authenticateJWT (\<lambda>k (c, signed). if signed = k then Some c else None) ''secret''
        (Some (\<lparr> username = ''test'', isAdmin = False, iat = 1 \<rparr>, ''secret''))
        = Inr (Some \<lparr> username = ''test'', isAdmin = False, iat = 1 \<rparr>)"
  using authenticateJWT_never_fails
          [of "\<lambda>k (c, signed). if signed = k then Some c else None" "''secret''"
              "(\<lparr> username = ''test'', isAdmin = False, iat = 1 \<rparr>, ''wrong'')"
              "\<lparr> username = ''test'', isAdmin = False, iat = 1 \<rparr>" None]
        authenticateJWT_never_fails
          [of "\<lambda>k (c, signed). if signed = k then Some c else None" "''secret''"
              "(\<lparr> username = ''test'', isAdmin = False, iat = 1 \<rparr>, ''secret'')"
              "\<lparr> username = ''test'', isAdmin = False, iat = 1 \<rparr>" None]
  by simp

text \<open>
  C4. \<open>ensureLoggedIn\<close> passes exactly when the context is not empty; \<open>ensureIsAdmin\<close>
  exactly when it is not empty and its admin flag is set; \<open>ensureIsAdminOrSelf\<close> exactly
  when it is not empty and its admin flag is set or its user name is the route's. Each
  check gives \<open>UnauthorizedError\<close> exactly when it does not pass.
\<close>

theorem ensure_checks:
  "(ensureLoggedIn ctx = Inr () \<longleftrightarrow> ctx \<noteq> None)
   \<and> (ensureIsAdmin ctx = Inr () \<longleftrightarrow> (\<exists>user. ctx = Some user \<and> isAdmin user))
   \<and> (ensureIsAdminOrSelf ctx target = Inr ()
        \<longleftrightarrow> (\<exists>user. ctx = Some user \<and> (isAdmin user \<or> username user = target)))
   \<and> (ensureLoggedIn ctx = Inl UnauthorizedError \<longleftrightarrow> ensureLoggedIn ctx \<noteq> Inr ())
   \<and> (ensureIsAdmin ctx = Inl UnauthorizedError \<longleftrightarrow> ensureIsAdmin ctx \<noteq> Inr ())
   \<and> (ensureIsAdminOrSelf ctx target = Inl UnauthorizedError
        \<longleftrightarrow> ensureIsAdminOrSelf ctx target \<noteq> Inr ())"
  by (auto simp add: ensureLoggedIn_def ensureIsAdmin_def ensureIsAdminOrSelf_def
        split: option.splits)

theorem ensure_checks_witness:
  "ensureLoggedIn (Some \<lparr> username = ''test'', isAdmin = False, iat = 1 \<rparr>) = Inr ()
   \<and> ensureIsAdmin (Some \<lparr> username = ''test'', isAdmin = False, iat = 1 \<rparr>)
       = Inl UnauthorizedError
   \<and> ensureIsAdminOrSelf (Some \<lparr> username = ''test'', isAdmin = False, iat = 1 \<rparr>) ''test''
       = Inr ()"
  using ensure_checks [of "Some \<lparr> username = ''test'', isAdmin = False, iat = 1 \<rparr>" "''test''"]
  by simp

end
